theory Spec2Isabelle
  imports Complex_Main "HOL-Library.Sublist"
begin

section \<open>Python strings\<close>

text \<open>
  A Python \<open>str\<close> is a sequence of Unicode code points; \<open>len\<close> counts code points.
  A string is modelled as the list of its code points, so that the model covers every
  string the program can receive and \<open>length\<close> is Python's \<open>len\<close>.
  \<open>lit\<close> turns an ASCII literal of the source into that representation.
\<close>

type_synonym pystr = "nat list"

definition lit :: "string \<Rightarrow> pystr" where
  "lit s = map of_char s"

text \<open>
  \<open>str.isspace\<close> for one code point: the characters that \<open>str.strip()\<close> removes
  (CPython's whitespace table).
\<close>

definition is_space :: "nat \<Rightarrow> bool" where
  "is_space c =
     ((9 \<le> c \<and> c \<le> 13) \<or> (28 \<le> c \<and> c \<le> 32) \<or> c = 133 \<or> c = 160 \<or> c = 5760
      \<or> (8192 \<le> c \<and> c \<le> 8202) \<or> c = 8232 \<or> c = 8233 \<or> c = 8239 \<or> c = 8287
      \<or> c = 12288)"

definition lstrip :: "pystr \<Rightarrow> pystr" where
  "lstrip s = dropWhile is_space s"

definition rstrip :: "pystr \<Rightarrow> pystr" where
  "rstrip s = rev (dropWhile is_space (rev s))"

text \<open>\<open>s.strip()\<close>: leading and trailing whitespace removed.\<close>

definition strip :: "pystr \<Rightarrow> pystr" where
  "strip s = rstrip (lstrip s)"

text \<open>\<open>s.startswith(p)\<close>, by comparison from the left.\<close>

fun startswith :: "pystr \<Rightarrow> pystr \<Rightarrow> bool" where
  "startswith s [] = True"
| "startswith [] (c # p) = False"
| "startswith (x # s) (c # p) = (x = c \<and> startswith s p)"

text \<open>\<open>s.endswith(p)\<close>.\<close>

definition endswith :: "pystr \<Rightarrow> pystr \<Rightarrow> bool" where
  "endswith s p = startswith (rev s) (rev p)"

text \<open>
  \<open>sub in s\<close> for two strings: \<open>sub\<close> occurs in \<open>s\<close> at some position, searched
  from the left.
\<close>

fun str_in :: "pystr \<Rightarrow> pystr \<Rightarrow> bool" where
  "str_in sub [] = (sub = [])"
| "str_in sub (c # s) = (startswith (c # s) sub \<or> str_in sub s)"


section \<open>The validator: \<open>KMLAgent._is_valid_kml\<close> (kml_agent.py)\<close>

definition required_elements :: "pystr list" where
  "required_elements =
     [lit ''<?xml'', lit ''<kml'', lit ''<Document>'', lit ''</Document>'', lit ''</kml>'']"

definition content_elements :: "pystr list" where
  "content_elements =
     [lit ''<Camera>'', lit ''<LookAt>'', lit ''<gx:FlyTo>'', lit ''<Placemark>'',
      lit ''<LineString>'', lit ''<Polygon>'']"

text \<open>
  The loop \<open>for element in required_elements: if element not in kml: return False\<close>;
  the result says whether the loop ran to its end. (The warning the source prints before
  returning goes to the console only.)
\<close>

fun all_required :: "pystr list \<Rightarrow> pystr \<Rightarrow> bool" where
  "all_required [] kml = True"
| "all_required (element # rest) kml =
     (if \<not> str_in element kml then False else all_required rest kml)"

text \<open>\<open>any(elem in kml for elem in [...])\<close>.\<close>

fun any_content :: "pystr list \<Rightarrow> pystr \<Rightarrow> bool" where
  "any_content [] kml = False"
| "any_content (elem # rest) kml = (if str_in elem kml then True else any_content rest kml)"

definition is_valid_kml :: "pystr \<Rightarrow> bool" where
  "is_valid_kml kml =
     (if \<not> all_required required_elements kml then False
      else
        (let has_content = any_content content_elements kml
         in if \<not> has_content then False else True))"

text \<open>A small document that has every required element and one fly-to element.\<close>

definition sample_kml :: pystr where
  "sample_kml =
     lit ''<?xml version=1.0?><kml><Document><gx:FlyTo></gx:FlyTo></Document></kml>''"


section \<open>The generation pipeline: \<open>KMLAgent.generate_kml\<close> (kml_agent.py)\<close>

text \<open>
  Exceptions are values. Only the classes the two files raise or can meet are kept, each
  with its message; \<open>exn_str\<close> is \<open>str(e)\<close>.
\<close>

datatype exn = ValueError pystr | Exception pystr | TypeError pystr | AttributeError pystr

fun exn_str :: "exn \<Rightarrow> pystr" where
  "exn_str (ValueError m) = m"
| "exn_str (Exception m) = m"
| "exn_str (TypeError m) = m"
| "exn_str (AttributeError m) = m"

text \<open>
  The completion service is outside the repository. One call
  \<open>self.model.generate_content(...)\<close> followed by the read of \<open>response.text\<close> either
  raises an exception (of a class derived from \<open>Exception\<close>) whose \<open>str\<close> is the given
  message, or gives the reply text. The service may answer the same request differently
  each time, so it is a function of the request text and of a state that it updates.
\<close>

datatype completion = ApiRaises pystr | ApiText pystr

type_synonym 's model = "pystr \<Rightarrow> 's \<Rightarrow> completion \<times> 's"

text \<open>\<open>'\n'.join(lines)\<close>, used to write the multi-line literal below.\<close>

fun join_lines :: "pystr list \<Rightarrow> pystr" where
  "join_lines [] = []"
| "join_lines [l] = l"
| "join_lines (l # ls) = l @ [10] @ join_lines ls"

text \<open>
  \<open>_build_system_prompt\<close>: the fixed instruction text. Code point 34 is the double
  quote and 39 the apostrophe.
\<close>

definition build_system_prompt :: pystr where
  "build_system_prompt = join_lines
     [lit ''You are a KML (Keyhole Markup Language) generation expert for Google Earth and Liquid Galaxy.'',
      [],
      lit ''CRITICAL: Output ONLY the KML XML code. No explanations, no markdown, no code blocks, no additional text whatsoever.'',
      [],
      lit ''RULES:'',
      lit ''1. XML declaration: <?xml version='' @ [34] @ lit ''1.0'' @ [34] @ lit '' encoding=''
        @ [34] @ lit ''UTF-8'' @ [34] @ lit ''?>'',
      lit ''2. Namespaces: xmlns='' @ [34] @ lit ''http://www.opengis.net/kml/2.2'' @ [34]
        @ lit '' xmlns:gx='' @ [34] @ lit ''http://www.google.com/kml/ext/2.2'' @ [34],
      lit ''3. For fly-to: use gx:Tour with gx:FlyTo for animations'',
      lit ''4. Camera elements must include: longitude, latitude, altitude, heading, tilt, roll, altitudeMode'',
      lit ''5. Coordinates: latitude [-90, 90], longitude [-180, 180]'',
      lit ''6. Defaults: altitude=1000, heading=0, tilt=45, roll=0'',
      lit ''7. Escape XML: &, <, >, '' @ [34] @ lit '', '' @ [39],
      lit ''8. Multiple stops: use multiple gx:FlyTo elements in sequence'',
      lit ''9. Wrap in KML Document tags'',
      lit ''10. Output: ONLY valid KML, nothing else'',
      [],
      lit ''COORDINATES:'',
      lit ''- New York: 40.7128, -74.0060'',
      lit ''- Eiffel Tower: 48.8584, 2.2945'',
      lit ''- Tokyo: 35.6762, 139.6503'',
      lit ''- Sydney: -33.8568, 151.2153'',
      [],
      lit ''Generate ONLY KML. No extra text.'']"

text \<open>The request text \<open>f"{system_prompt}\n\nUser request: {prompt}"\<close>.\<close>

definition request_text :: "pystr \<Rightarrow> pystr" where
  "request_text prompt =
     (let system_prompt = build_system_prompt
      in system_prompt @ [10, 10] @ lit ''User request: '' @ prompt)"

text \<open>
  Lines 106 to 116 of \<open>generate_kml\<close>, "Remove markdown code blocks if present":
  \<open>strip()\<close>, then the three tests in the order of the source, each on the result of the
  one before (\<open>kml[6:]\<close>, \<open>kml[3:]\<close>, \<open>kml[:-3]\<close>), then \<open>strip()\<close> again.
\<close>

definition remove_markdown :: "pystr \<Rightarrow> pystr" where
  "remove_markdown text =
     (let kml = strip text;
          kml = (if startswith kml (lit ''```xml'') then drop 6 kml else kml);
          kml = (if startswith kml (lit ''```'') then drop 3 kml else kml);
          kml = (if endswith kml (lit ''```'') then take (length kml - 3) kml else kml)
      in strip kml)"

text \<open>The body of the \<open>try\<close> block of \<open>generate_kml\<close>.\<close>

definition generate_kml_try :: "'s model \<Rightarrow> pystr \<Rightarrow> 's \<Rightarrow> (exn + pystr) \<times> 's" where
  "generate_kml_try model prompt st =
     (case model (request_text prompt) st of
        (ApiRaises msg, st') \<Rightarrow> (Inl (Exception msg), st')
      | (ApiText text, st') \<Rightarrow>
          if text = [] then (Inl (Exception (lit ''No response from Gemini API'')), st')
          else
            (let kml = remove_markdown text
             in if \<not> is_valid_kml kml
                then (Inl (Exception (lit ''Generated KML failed validation'')), st')
                else (Inr kml, st')))"

text \<open>
  \<open>generate_kml\<close>: the check of the prompt, outside the \<open>try\<close>, then the \<open>try\<close> block
  with its handler \<open>except Exception as e: raise Exception(f'KML generation failed: {str(e)}')\<close>.
\<close>

definition generate_kml :: "'s model \<Rightarrow> pystr \<Rightarrow> 's \<Rightarrow> (exn + pystr) \<times> 's" where
  "generate_kml model prompt st =
     (if prompt = [] \<or> strip prompt = []
      then (Inl (ValueError (lit ''Prompt cannot be empty'')), st)
      else
        (case generate_kml_try model prompt st of
           (Inl e, st') \<Rightarrow> (Inl (Exception (lit ''KML generation failed: '' @ exn_str e)), st')
         | (Inr kml, st') \<Rightarrow> (Inr kml, st')))"


section \<open>The HTTP handlers (flask_server.py)\<close>

text \<open>
  What \<open>request.get_json()\<close> returns: a parsed JSON value as Python has it. A JSON
  number is an \<open>int\<close> or a \<open>float\<close>; of a float only its numeric value is kept. An
  object is the list of its key and value pairs.
\<close>

datatype json =
    JNull
  | JBool bool
  | JInt int
  | JFloat real
  | JStr pystr
  | JArray "json list"
  | JObject "(pystr \<times> json) list"

text \<open>Python's truth value of a parsed value (\<open>not data\<close> is its negation).\<close>

fun truthy :: "json \<Rightarrow> bool" where
  "truthy JNull = False"
| "truthy (JBool b) = b"
| "truthy (JInt n) = (n \<noteq> 0)"
| "truthy (JFloat x) = (x \<noteq> 0)"
| "truthy (JStr s) = (s \<noteq> [])"
| "truthy (JArray xs) = (xs \<noteq> [])"
| "truthy (JObject kvs) = (kvs \<noteq> [])"

text \<open>\<open>type(x).__name__\<close>, which the interpreter's error messages quote.\<close>

fun type_name :: "json \<Rightarrow> pystr" where
  "type_name JNull = lit ''NoneType''"
| "type_name (JBool b) = lit ''bool''"
| "type_name (JInt n) = lit ''int''"
| "type_name (JFloat x) = lit ''float''"
| "type_name (JStr s) = lit ''str''"
| "type_name (JArray xs) = lit ''list''"
| "type_name (JObject kvs) = lit ''dict''"

definition no_attribute :: "json \<Rightarrow> string \<Rightarrow> exn" where
  "no_attribute x name =
     AttributeError ([39] @ type_name x @ [39] @ lit '' object has no attribute ''
       @ [39] @ lit name @ [39])"

text \<open>
  \<open>key in data\<close> for a string \<open>key\<close>: a key of a dict, an element of a list, a
  substring of a string; a \<open>TypeError\<close> on the other values.
\<close>

fun py_in :: "pystr \<Rightarrow> json \<Rightarrow> exn + bool" where
  "py_in key (JObject kvs) = Inr (key \<in> set (map fst kvs))"
| "py_in key (JArray xs) = Inr (JStr key \<in> set xs)"
| "py_in key (JStr s) = Inr (str_in key s)"
| "py_in key x =
     Inl (TypeError (lit ''argument of type '' @ [39] @ type_name x @ [39]
       @ lit '' is not iterable''))"

text \<open>\<open>data.get(key, default)\<close>: only a dict has the method.\<close>

fun py_get :: "json \<Rightarrow> pystr \<Rightarrow> json \<Rightarrow> exn + json" where
  "py_get (JObject kvs) key dflt =
     Inr (case map_of kvs key of Some v \<Rightarrow> v | None \<Rightarrow> dflt)"
| "py_get x key dflt = Inl (no_attribute x ''get'')"

text \<open>\<open>x.strip()\<close>: only a string has the method.\<close>

fun py_strip :: "json \<Rightarrow> exn + pystr" where
  "py_strip (JStr s) = Inr (strip s)"
| "py_strip x = Inl (no_attribute x ''strip'')"

text \<open>
  \<open>str(x)\<close>: a string is returned as it is; another value gives its \<open>repr\<close>, a builtin
  of the interpreter, which the model takes as the parameter \<open>repr\<close>.
\<close>

fun py_str :: "(json \<Rightarrow> pystr) \<Rightarrow> json \<Rightarrow> pystr" where
  "py_str repr (JStr s) = s"
| "py_str repr x = repr x"

text \<open>
  A response \<open>jsonify(...), status\<close>. The JSON bodies the handlers build are
  \<open>{'error': msg}\<close>, \<open>{'kml': kml}\<close>, \<open>{'results': [...], 'failed': [...]}\<close> with entries
  \<open>{'query': q, 'kml': k}\<close> and \<open>{'query': q, 'error': m}\<close> (pairs here), and
  \<open>{'valid': b, 'length': n}\<close>.
\<close>

datatype body =
    ErrorBody pystr
  | KmlBody pystr
  | BatchBody "(pystr \<times> pystr) list" "(pystr \<times> pystr) list"
  | ValidBody bool nat

type_synonym response = "body \<times> nat"



text \<open>
  The loop \<open>for prompt in queries\<close> of \<open>generate_kml_batch\<close>, with the two lists it
  appends to and the state of the service. An element that is empty after \<open>str\<close> and
  \<open>strip\<close> takes the \<open>continue\<close>; an exception of the pipeline is caught inside the loop
  and recorded with the stripped prompt.
\<close>

fun batch_loop ::
  "(json \<Rightarrow> pystr) \<Rightarrow> 's model \<Rightarrow> json list \<Rightarrow> (pystr \<times> pystr) list \<Rightarrow> (pystr \<times> pystr) list \<Rightarrow> 's
    \<Rightarrow> ((pystr \<times> pystr) list \<times> (pystr \<times> pystr) list) \<times> 's" where
  "batch_loop repr model [] results failed st = ((results, failed), st)"
| "batch_loop repr model (q # queries) results failed st =
     (let prompt = strip (py_str repr q)
      in if prompt = [] then batch_loop repr model queries results failed st
         else
           (case generate_kml model prompt st of
              (Inr kml, st') \<Rightarrow>
                batch_loop repr model queries (results @ [(prompt, kml)]) failed st'
            | (Inl e, st') \<Rightarrow>
                batch_loop repr model queries results (failed @ [(prompt, exn_str e)]) st'))"

text \<open>\<open>isinstance(queries, list)\<close>.\<close>

fun is_list :: "json \<Rightarrow> bool" where
  "is_list (JArray xs) = True"
| "is_list x = False"

fun elements :: "json \<Rightarrow> json list" where
  "elements (JArray xs) = xs"
| "elements x = []"

text \<open>
  The view \<open>generate_kml_batch\<close>: the body of its outer \<open>try\<close>, then the handler.
  The two conditions joined by \<open>or\<close> are tested one after the other, as Python
  evaluates them: \<open>not data\<close> before \<open>'queries' not in data\<close>, and
  \<open>not isinstance(queries, list)\<close> before \<open>not queries\<close>.
\<close>

definition generate_kml_batch_try ::
  "(json \<Rightarrow> pystr) \<Rightarrow> 's model \<Rightarrow> exn + json \<Rightarrow> 's \<Rightarrow> (exn + response) \<times> 's" where
  "generate_kml_batch_try repr model req st =
     (case req of
        Inl e \<Rightarrow> (Inl e, st)
      | Inr data \<Rightarrow>
          if \<not> truthy data then (Inr (ErrorBody (lit ''queries array is required''), 400), st)
          else
            (case py_in (lit ''queries'') data of
               Inl e \<Rightarrow> (Inl e, st)
             | Inr present \<Rightarrow>
                 if \<not> present
                 then (Inr (ErrorBody (lit ''queries array is required''), 400), st)
                 else
                   (case py_get data (lit ''queries'') (JArray []) of
                      Inl e \<Rightarrow> (Inl e, st)
                    | Inr queries \<Rightarrow>
                        if \<not> is_list queries then
                          (Inr (ErrorBody (lit ''queries must be a non-empty array''), 400), st)
                        else if \<not> truthy queries then
                          (Inr (ErrorBody (lit ''queries must be a non-empty array''), 400), st)
                        else
                          (case batch_loop repr model (elements queries) [] [] st of
                             ((results, failed), st') \<Rightarrow>
                               (Inr (BatchBody results failed, 200), st')))))"

definition generate_kml_batch ::
  "(json \<Rightarrow> pystr) \<Rightarrow> 's model \<Rightarrow> exn + json \<Rightarrow> 's \<Rightarrow> response \<times> 's" where
  "generate_kml_batch repr model req st =
     (case generate_kml_batch_try repr model req st of
        (Inl e, st') \<Rightarrow> (let error_msg = exn_str e in ((ErrorBody error_msg, 500), st'))
      | (Inr resp, st') \<Rightarrow> (resp, st'))"

text \<open>The view \<open>validate_kml\<close>; it does not call the service.\<close>

definition validate_kml_try :: "exn + json \<Rightarrow> exn + response" where
  "validate_kml_try req =
     (case req of
        Inl e \<Rightarrow> Inl e
      | Inr data \<Rightarrow>
          if \<not> truthy data then Inr (ErrorBody (lit ''kml parameter is required''), 400)
          else
            (case py_in (lit ''kml'') data of
               Inl e \<Rightarrow> Inl e
             | Inr present \<Rightarrow>
                 if \<not> present then Inr (ErrorBody (lit ''kml parameter is required''), 400)
                 else
                   (case py_get data (lit ''kml'') (JStr []) of
                      Inl e \<Rightarrow> Inl e
                    | Inr v \<Rightarrow>
                        (case py_strip v of
                           Inl e \<Rightarrow> Inl e
                         | Inr kml \<Rightarrow>
                             (let is_valid = is_valid_kml kml
                              in Inr (ValidBody is_valid (length kml), 200))))))"

definition validate_kml :: "exn + json \<Rightarrow> response" where
  "validate_kml req =
     (case validate_kml_try req of
        Inl e \<Rightarrow> (ErrorBody (exn_str e), 500)
      | Inr resp \<Rightarrow> resp)"


section \<open>Sample services and the sequence of pipeline outcomes\<close>

text \<open>A service that gives the same answer to every request.\<close>

definition always :: "completion \<Rightarrow> unit model" where
  "always c = (\<lambda>req st. (c, st))"

text \<open>
  A service that answers from a script: each call takes the next answer of the list,
  which is its state, and raises once the list is used up.
\<close>

fun scripted :: "completion list model" where
  "scripted req [] = (ApiRaises (lit ''service unavailable''), [])"
| "scripted req (c # cs) = (c, cs)"


text \<open>
  A stand-in for \<open>repr\<close> where a concrete one is needed: it gives the name of the type.
  The sample batches hold strings only, on which \<open>str\<close> does not call it.
\<close>

definition plain_repr :: "json \<Rightarrow> pystr" where
  "plain_repr x = type_name x"





section \<open>Facts about the string operations\<close>

lemma startswith_iff_prefix: "startswith s p \<longleftrightarrow> prefix p s"
  by (induction s p rule: startswith.induct) auto

lemma str_in_iff_sublist: "str_in sub s \<longleftrightarrow> sublist sub s"
  by (induction s) (simp_all add: startswith_iff_prefix sublist_Cons_right)

lemma all_required_iff: "all_required es kml \<longleftrightarrow> list_all (\<lambda>e. sublist e kml) es"
  by (induction es) (simp_all add: str_in_iff_sublist)

lemma any_content_iff: "any_content es kml \<longleftrightarrow> list_ex (\<lambda>e. sublist e kml) es"
  by (induction es) (simp_all add: str_in_iff_sublist)

lemma is_valid_kml_sublists:
  "is_valid_kml kml \<longleftrightarrow>
     list_all (\<lambda>e. sublist e kml) required_elements \<and>
     list_ex (\<lambda>e. sublist e kml) content_elements"
  by (simp add: is_valid_kml_def all_required_iff any_content_iff)

lemma sublist_trans:
  assumes "sublist e s" and "sublist s t"
  shows "sublist e t"
proof -
  from assms obtain p q p' q' where "s = p @ e @ q" and "t = p' @ s @ q'"
    by (auto simp: sublist_def)
  then have "t = (p' @ p) @ e @ (q @ q')"
    by simp
  then show ?thesis
    unfolding sublist_def by blast
qed











lemma strip_Nil: "strip [] = []"
  by (simp add: strip_def lstrip_def rstrip_def)



lemma lit_append: "lit a @ lit b = lit (a @ b)"
  by (simp add: lit_def)

lemma generate_kml_cases:
  assumes "strip prompt \<noteq> []" and "model (request_text prompt) st = (c, st')"
  shows "generate_kml model prompt st =
     ((case c of
         ApiRaises msg \<Rightarrow> Inl (Exception (lit ''KML generation failed: '' @ msg))
       | ApiText text \<Rightarrow>
           if text = []
           then Inl (Exception (lit ''KML generation failed: No response from Gemini API''))
           else if is_valid_kml (remove_markdown text) then Inr (remove_markdown text)
           else Inl (Exception (lit ''KML generation failed: Generated KML failed validation''))),
      st')"
proof -
  from assms(1) have "prompt \<noteq> []"
    using strip_Nil by auto
  with assms show ?thesis
    by (cases c) (simp_all add: generate_kml_def generate_kml_try_def Let_def lit_def)
qed

lemma strip_sample_prompt: "strip (lit ''Fly to Eiffel Tower'') = lit ''Fly to Eiffel Tower''"
  by (simp add: strip_def lstrip_def rstrip_def lit_def is_space_def)

lemma sample_kml_valid: "is_valid_kml sample_kml"
  by (simp add: is_valid_kml_def required_elements_def content_elements_def
      sample_kml_def lit_def)

lemma strip_sample_kml: "strip sample_kml = sample_kml"
  by (simp add: strip_def lstrip_def rstrip_def sample_kml_def lit_def is_space_def)

lemma remove_markdown_sample: "remove_markdown sample_kml = sample_kml"
  by (simp add: remove_markdown_def strip_sample_kml Let_def)
     (simp add: sample_kml_def lit_def endswith_def)


section \<open>Properties of the validator\<close>

text \<open>
  Claim C2. For every string \<open>s\<close>, \<open>_is_valid_kml(s)\<close> is true exactly when \<open>s\<close>
  contains each of the five required substrings \<open><?xml\<close>, \<open><kml\<close>, \<open><Document>\<close>,
  \<open></Document>\<close>, \<open></kml>\<close> and at least one of the six content elements
  \<open><Camera>\<close>, \<open><LookAt>\<close>, \<open><gx:FlyTo>\<close>, \<open><Placemark>\<close>, \<open><LineString>\<close>,
  \<open><Polygon>\<close>. So a string that misses a required substring, or has them all and no
  content element, is invalid; the empty string is invalid. Containment is stated with
  \<open>sublist\<close>, the library's notion of a contiguous part of a list.
\<close>

theorem is_valid_kml_characterisation:
  "(is_valid_kml s \<longleftrightarrow>
      (sublist (lit ''<?xml'') s \<and> sublist (lit ''<kml'') s \<and> sublist (lit ''<Document>'') s
        \<and> sublist (lit ''</Document>'') s \<and> sublist (lit ''</kml>'') s)
      \<and> (sublist (lit ''<Camera>'') s \<or> sublist (lit ''<LookAt>'') s
        \<or> sublist (lit ''<gx:FlyTo>'') s \<or> sublist (lit ''<Placemark>'') s
        \<or> sublist (lit ''<LineString>'') s \<or> sublist (lit ''<Polygon>'') s))
   \<and> \<not> is_valid_kml []"
proof
  show "is_valid_kml s \<longleftrightarrow>
      (sublist (lit ''<?xml'') s \<and> sublist (lit ''<kml'') s \<and> sublist (lit ''<Document>'') s
        \<and> sublist (lit ''</Document>'') s \<and> sublist (lit ''</kml>'') s)
      \<and> (sublist (lit ''<Camera>'') s \<or> sublist (lit ''<LookAt>'') s
        \<or> sublist (lit ''<gx:FlyTo>'') s \<or> sublist (lit ''<Placemark>'') s
        \<or> sublist (lit ''<LineString>'') s \<or> sublist (lit ''<Polygon>'') s)"
    unfolding is_valid_kml_sublists required_elements_def content_elements_def
    by simp
  show "\<not> is_valid_kml []"
    by (simp add: is_valid_kml_def required_elements_def lit_def)
qed

theorem is_valid_kml_characterisation_witness:
  "is_valid_kml sample_kml
   \<and> \<not> is_valid_kml (lit ''<?xml version=1.0?><kml><Document></Document></kml>'')
   \<and> \<not> is_valid_kml (lit ''<?xml version=1.0?><kml><Document><Camera></Camera></kml>'')"
  using is_valid_kml_characterisation [of sample_kml]
    is_valid_kml_characterisation
      [of "lit ''<?xml version=1.0?><kml><Document></Document></kml>''"]
    is_valid_kml_characterisation
      [of "lit ''<?xml version=1.0?><kml><Document><Camera></Camera></kml>''"]
  by (simp add: str_in_iff_sublist [symmetric] sample_kml_def lit_def)

text \<open>
  Claim C9. \<open>_is_valid_kml\<close> is monotone under extension: when \<open>s\<close> is valid and \<open>s\<close>
  occurs as a contiguous part of \<open>t\<close>, then \<open>t\<close> is valid.
\<close>

theorem is_valid_kml_monotone:
  assumes "is_valid_kml s" and "sublist s t"
  shows "is_valid_kml t"
proof -
  have step: "sublist e t" if "sublist e s" for e
    using that assms(2) by (rule sublist_trans)
  from assms(1) have "list_all (\<lambda>e. sublist e s) required_elements"
    and "list_ex (\<lambda>e. sublist e s) content_elements"
    by (simp_all add: is_valid_kml_sublists)
  then have "list_all (\<lambda>e. sublist e t) required_elements"
    and "list_ex (\<lambda>e. sublist e t) content_elements"
    using step by (auto simp: list_all_iff list_ex_iff)
  then show ?thesis
    by (simp add: is_valid_kml_sublists)
qed

theorem is_valid_kml_monotone_witness:
  "is_valid_kml sample_kml
   \<and> sublist sample_kml (lit ''Here is your KML: '' @ sample_kml @ lit '' Enjoy!'')
   \<and> is_valid_kml (lit ''Here is your KML: '' @ sample_kml @ lit '' Enjoy!'')"
proof -
  have valid: "is_valid_kml sample_kml"
    by (simp add: is_valid_kml_def required_elements_def content_elements_def
        sample_kml_def lit_def)
  have part: "sublist sample_kml (lit ''Here is your KML: '' @ sample_kml @ lit '' Enjoy!'')"
    by (rule sublist_appendI)
  from valid part is_valid_kml_monotone [OF valid part] show ?thesis
    by simp
qed


section \<open>Properties of the generation pipeline\<close>

text \<open>
  Claim C1. For every prompt that is non-empty after trimming, whatever the completion
  service answers, \<open>generate_kml\<close> either raises an error or returns a string that
  \<open>_is_valid_kml\<close> accepts; it never returns a string that fails validation.
\<close>

theorem generate_kml_valid_or_error:
  assumes "strip prompt \<noteq> []"
  shows "(\<exists>e. fst (generate_kml model prompt st) = Inl e)
       \<or> (\<exists>s. fst (generate_kml model prompt st) = Inr s \<and> is_valid_kml s)"
proof -
  obtain c st' where "model (request_text prompt) st = (c, st')"
    by (cases "model (request_text prompt) st")
  with assms generate_kml_cases [of prompt model st c st']
  have "generate_kml model prompt st =
     ((case c of
         ApiRaises msg \<Rightarrow> Inl (Exception (lit ''KML generation failed: '' @ msg))
       | ApiText text \<Rightarrow>
           if text = []
           then Inl (Exception (lit ''KML generation failed: No response from Gemini API''))
           else if is_valid_kml (remove_markdown text) then Inr (remove_markdown text)
           else Inl (Exception (lit ''KML generation failed: Generated KML failed validation''))),
      st')"
    by simp
  then show ?thesis
    by (cases c) simp_all
qed

theorem generate_kml_valid_or_error_witness:
  "strip (lit ''Fly to Eiffel Tower'') \<noteq> []
   \<and> fst (generate_kml (always (ApiText sample_kml)) (lit ''Fly to Eiffel Tower'') ())
       = Inr sample_kml
   \<and> is_valid_kml sample_kml"
proof -
  have nonblank: "strip (lit ''Fly to Eiffel Tower'') \<noteq> []"
    by (simp add: strip_sample_prompt) (simp add: lit_def)
  have "always (ApiText sample_kml) (request_text (lit ''Fly to Eiffel Tower'')) ()
      = (ApiText sample_kml, ())"
    by (simp add: always_def)
  with nonblank
    generate_kml_cases [of "lit ''Fly to Eiffel Tower''" "always (ApiText sample_kml)" "()"
      "ApiText sample_kml" "()"]
  have run:
    "fst (generate_kml (always (ApiText sample_kml)) (lit ''Fly to Eiffel Tower'') ())
      = Inr sample_kml"
    by (simp add: remove_markdown_sample sample_kml_valid)
       (simp add: sample_kml_def lit_def)
  from generate_kml_valid_or_error [OF nonblank, of "always (ApiText sample_kml)" "()"] run
  have "is_valid_kml sample_kml"
    by auto
  with nonblank run show ?thesis
    by simp
qed

text \<open>
  Claim C8. When the prompt is non-empty after trimming and the reply of the completion
  service is the empty string, \<open>generate_kml\<close> returns no value: it raises the
  exception whose message says that no response was received (wrapped by the handler of
  the \<open>try\<close> block as every failure of the pipeline is).
\<close>

theorem empty_reply_raises:
  assumes "strip prompt \<noteq> []"
    and "model (request_text prompt) st = (ApiText [], st')"
  shows "generate_kml model prompt st =
     (Inl (Exception (lit ''KML generation failed: No response from Gemini API'')), st')"
  using assms generate_kml_cases [of prompt model st "ApiText []" st'] by simp

theorem empty_reply_raises_witness:
  "strip (lit ''Fly to Eiffel Tower'') \<noteq> []
   \<and> always (ApiText []) (request_text (lit ''Fly to Eiffel Tower'')) () = (ApiText [], ())
   \<and> generate_kml (always (ApiText [])) (lit ''Fly to Eiffel Tower'') () =
     (Inl (Exception (lit ''KML generation failed: No response from Gemini API'')), ())"
proof -
  have nonblank: "strip (lit ''Fly to Eiffel Tower'') \<noteq> []"
    by (simp add: strip_sample_prompt) (simp add: lit_def)
  have reply: "always (ApiText []) (request_text (lit ''Fly to Eiffel Tower'')) () = (ApiText [], ())"
    by (simp add: always_def)
  from nonblank reply
    empty_reply_raises [of "lit ''Fly to Eiffel Tower''" "always (ApiText [])" "()" "()"]
  show ?thesis
    by simp
qed




section \<open>Properties of the HTTP handlers\<close>







text \<open>
  Claim C10. For a request object whose \<open>kml\<close> field is a string, \<open>/validate-kml\<close>
  answers 200 with \<open>valid\<close> equal to \<open>_is_valid_kml\<close> of the trimmed string and
  \<open>length\<close> equal to the length of the trimmed string, not of the string as submitted.
\<close>

theorem validate_kml_trims_first:
  assumes "map_of kvs (lit ''kml'') = Some (JStr k)"
  shows "validate_kml (Inr (JObject kvs)) =
     (ValidBody (is_valid_kml (strip k)) (length (strip k)), 200)"
proof -
  from assms have "kvs \<noteq> []"
    by auto
  moreover from assms have "lit ''kml'' \<in> fst ` set kvs"
    by (metis domI dom_map_of_conv_image_fst)
  ultimately show ?thesis
    using assms by (simp add: validate_kml_def validate_kml_try_def Let_def)
qed

theorem validate_kml_trims_first_witness:
  "map_of [(lit ''kml'', JStr (lit ''   '' @ sample_kml @ [10, 10]))] (lit ''kml'')
     = Some (JStr (lit ''   '' @ sample_kml @ [10, 10]))
   \<and> validate_kml (Inr (JObject [(lit ''kml'', JStr (lit ''   '' @ sample_kml @ [10, 10]))]))
     = (ValidBody True 72, 200)
   \<and> length (lit ''   '' @ sample_kml @ [10, 10]) = 77"
proof -
  have field: "map_of [(lit ''kml'', JStr (lit ''   '' @ sample_kml @ [10, 10]))] (lit ''kml'')
     = Some (JStr (lit ''   '' @ sample_kml @ [10, 10]))"
    by simp
  have trimmed: "strip (lit ''   '' @ sample_kml @ [10, 10]) = sample_kml"
    by (simp add: strip_def lstrip_def rstrip_def sample_kml_def lit_def is_space_def)
  have len: "length sample_kml = 72"
    by (simp add: sample_kml_def lit_def)
  have submitted: "length (lit ''   '' @ sample_kml @ [10, 10]) = 77"
    by (simp add: len) (simp add: lit_def)
  from validate_kml_trims_first [OF field]
  have "validate_kml (Inr (JObject [(lit ''kml'', JStr (lit ''   '' @ sample_kml @ [10, 10]))]))
     = (ValidBody True 72, 200)"
    by (simp only: trimmed len sample_kml_valid)
  with field submitted show ?thesis
    by blast
qed

text \<open>
  Claim C7. The claim says that \<open>/generate-kml-batch\<close> answers 400 whenever the body has
  no \<open>queries\<close> field. The handler applies \<open>'queries' not in data\<close> and \<open>data.get\<close> to
  whatever \<open>get_json\<close> returned: for the JSON body \<open>5\<close> the membership test raises
  \<open>TypeError\<close>, and for the body \<open>["queries"]\<close> the test passes and \<open>data.get\<close>
  raises \<open>AttributeError\<close>; the outer handler turns both into the status 500. Neither
  calls the service.
\<close>

theorem batch_non_object_body_gives_500:
  "generate_kml_batch repr model (Inr (JInt 5)) st =
     ((ErrorBody (lit ''argument of type '' @ [39] @ lit ''int'' @ [39] @ lit '' is not iterable''),
       500), st)
   \<and> generate_kml_batch repr model (Inr (JArray [JStr (lit ''queries'')])) st =
     ((ErrorBody ([39] @ lit ''list'' @ [39] @ lit '' object has no attribute '' @ [39]
         @ lit ''get'' @ [39]), 500), st)"
  by (simp add: generate_kml_batch_def generate_kml_batch_try_def no_attribute_def)

text \<open>
  On the bodies the handler was written for, the claim holds: a body that Python counts
  as false, and an object that has no \<open>queries\<close> key or whose \<open>queries\<close> is not a list
  or is the empty list, get the status 400, and the service is not called (its state is
  unchanged and the answer does not depend on it).
\<close>

lemma batch_malformed_body_gives_400:
  assumes "\<not> truthy data
      \<or> (\<exists>kvs. data = JObject kvs \<and>
           (lit ''queries'' \<notin> fst ` set kvs
            \<or> (\<exists>v. map_of kvs (lit ''queries'') = Some v \<and> (\<not> is_list v \<or> v = JArray []))))"
  shows "generate_kml_batch repr model (Inr data) st
           = ((ErrorBody (lit ''queries array is required''), 400), st)
       \<or> generate_kml_batch repr model (Inr data) st
           = ((ErrorBody (lit ''queries must be a non-empty array''), 400), st)"
proof (cases "truthy data")
  case False
  then show ?thesis
    by (simp add: generate_kml_batch_def generate_kml_batch_try_def)
next
  case True
  with assms obtain kvs where data: "data = JObject kvs"
    and bad: "lit ''queries'' \<notin> fst ` set kvs
      \<or> (\<exists>v. map_of kvs (lit ''queries'') = Some v \<and> (\<not> is_list v \<or> v = JArray []))"
    by blast
  from True data have "kvs \<noteq> []"
    by simp
  with data bad show ?thesis
    by (auto simp: generate_kml_batch_def generate_kml_batch_try_def)
qed


section \<open>Properties of the batch loop\<close>

lemma batch_loop_drop_blank:
  assumes "strip (py_str repr q) = []"
  shows "batch_loop repr model (qs1 @ q # qs2) results failed st =
         batch_loop repr model (qs1 @ qs2) results failed st"
  using assms
  by (induction qs1 arbitrary: results failed st)
     (simp_all add: Let_def split: prod.splits sum.splits)

lemma batch_loop_entries_nonblank:
  assumes "batch_loop repr model qs results failed st = ((rs, fs), st')"
    and "\<forall>p\<in>fst ` set results \<union> fst ` set failed. p \<noteq> []"
  shows "\<forall>p\<in>fst ` set rs \<union> fst ` set fs. p \<noteq> []"
  using assms
proof (induction qs arbitrary: results failed st)
  case Nil
  then show ?case by simp
next
  case (Cons q qs)
  show ?case
  proof (cases "strip (py_str repr q) = []")
    case True
    with Cons.prems(1) have "batch_loop repr model qs results failed st = ((rs, fs), st')"
      by simp
    then show ?thesis
      using Cons.prems(2) by (rule Cons.IH)
  next
    case False
    obtain r st1 where run: "generate_kml model (strip (py_str repr q)) st = (r, st1)"
      by (cases "generate_kml model (strip (py_str repr q)) st")
    show ?thesis
    proof (cases r)
      case (Inl e)
      with False run Cons.prems(1)
      have "batch_loop repr model qs results
              (failed @ [(strip (py_str repr q), exn_str e)]) st1 = ((rs, fs), st')"
        by (simp add: Let_def)
      moreover from False Cons.prems(2)
      have "\<forall>p\<in>fst ` set results
              \<union> fst ` set (failed @ [(strip (py_str repr q), exn_str e)]). p \<noteq> []"
        by auto
      ultimately show ?thesis
        by (rule Cons.IH)
    next
      case (Inr kml)
      with False run Cons.prems(1)
      have "batch_loop repr model qs (results @ [(strip (py_str repr q), kml)]) failed st1
              = ((rs, fs), st')"
        by (simp add: Let_def)
      moreover from False Cons.prems(2)
      have "\<forall>p\<in>fst ` set (results @ [(strip (py_str repr q), kml)])
              \<union> fst ` set failed. p \<noteq> []"
        by auto
      ultimately show ?thesis
        by (rule Cons.IH)
    qed
  qed
qed







lemma generate_kml_batch_object:
  assumes "map_of kvs (lit ''queries'') = Some (JArray qs)" and "qs \<noteq> []"
  shows "generate_kml_batch repr model (Inr (JObject kvs)) st =
     (case batch_loop repr model qs [] [] st of
        ((results, failed), st') \<Rightarrow> ((BatchBody results failed, 200), st'))"
proof -
  from assms(1) have "kvs \<noteq> []"
    by auto
  moreover from assms(1) have "lit ''queries'' \<in> fst ` set kvs"
    by (metis domI dom_map_of_conv_image_fst)
  ultimately show ?thesis
    using assms
    by (simp add: generate_kml_batch_def generate_kml_batch_try_def split: prod.splits)
qed

lemma scripted_step:
  assumes "strip p \<noteq> []"
  shows "generate_kml scripted p (c # cs) =
     ((case c of
         ApiRaises msg \<Rightarrow> Inl (Exception (lit ''KML generation failed: '' @ msg))
       | ApiText text \<Rightarrow>
           if text = []
           then Inl (Exception (lit ''KML generation failed: No response from Gemini API''))
           else if is_valid_kml (remove_markdown text) then Inr (remove_markdown text)
           else Inl (Exception (lit ''KML generation failed: Generated KML failed validation''))),
      cs)"
proof -
  have "scripted (request_text p) (c # cs) = (c, cs)"
    by simp
  with assms show ?thesis
    by (rule generate_kml_cases)
qed

lemma strip_letters:
  "strip (lit ''A'') = lit ''A''" "strip (lit ''B'') = lit ''B''" "strip (lit ''C'') = lit ''C''"
  "lit ''A'' \<noteq> []" "lit ''B'' \<noteq> []" "lit ''C'' \<noteq> []"
  by (simp_all add: strip_def lstrip_def rstrip_def lit_def is_space_def)

lemma no_kml_here:
  "lit ''no KML here'' \<noteq> []" "\<not> is_valid_kml (remove_markdown (lit ''no KML here''))"
  by (simp_all add: remove_markdown_def strip_def lstrip_def rstrip_def endswith_def
      is_valid_kml_def required_elements_def lit_def is_space_def Let_def)

lemma sample_kml_nonempty: "sample_kml \<noteq> []"
  by (simp add: sample_kml_def lit_def)



text \<open>
  Claim C5. A query element that is empty after \<open>str\<close> and \<open>strip\<close> is skipped without
  a trace: the response to a batch that holds such an element, and the state the service
  is left in, are those of the loop run on the list without it; and no entry of
  \<open>results\<close> or of \<open>failed\<close> has an empty query.
\<close>

theorem blank_query_is_skipped:
  assumes "map_of kvs (lit ''queries'') = Some (JArray (qs1 @ q # qs2))"
    and "strip (py_str repr q) = []"
  shows "generate_kml_batch repr model (Inr (JObject kvs)) st =
           (case batch_loop repr model (qs1 @ qs2) [] [] st of
              ((results, failed), st') \<Rightarrow> ((BatchBody results failed, 200), st'))
       \<and> (\<forall>results failed code.
             fst (generate_kml_batch repr model (Inr (JObject kvs)) st)
               = (BatchBody results failed, code) \<longrightarrow>
             (\<forall>entry\<in>set results \<union> set failed. fst entry \<noteq> []))"
proof -
  have nonempty: "qs1 @ q # qs2 \<noteq> []"
    by simp
  note view = generate_kml_batch_object [OF assms(1) nonempty, of repr model st]
  have first: "generate_kml_batch repr model (Inr (JObject kvs)) st =
           (case batch_loop repr model (qs1 @ qs2) [] [] st of
              ((results, failed), st') \<Rightarrow> ((BatchBody results failed, 200), st'))"
    using view batch_loop_drop_blank [OF assms(2), of model qs1 qs2 "[]" "[]" st]
    by simp
  have second: "\<forall>entry\<in>set results \<union> set failed. fst entry \<noteq> []"
    if "fst (generate_kml_batch repr model (Inr (JObject kvs)) st)
          = (BatchBody results failed, code)" for results failed code
  proof -
    obtain rs fs st' where loop:
      "batch_loop repr model (qs1 @ q # qs2) [] [] st = ((rs, fs), st')"
      by (metis prod.exhaust)
    with view that have "rs = results" and "fs = failed"
      by simp_all
    with loop batch_loop_entries_nonblank [of repr model "qs1 @ q # qs2" "[]" "[]" st rs fs st']
    show ?thesis
      by auto
  qed
  from first second show ?thesis
    by blast
qed

theorem blank_query_is_skipped_witness:
  "map_of [(lit ''queries'', JArray [JStr (lit ''A''), JStr [], JStr (lit ''B'')])]
       (lit ''queries'')
     = Some (JArray ([JStr (lit ''A'')] @ JStr [] # [JStr (lit ''B'')]))
   \<and> strip (py_str plain_repr (JStr [])) = []
   \<and> generate_kml_batch plain_repr scripted
        (Inr (JObject
          [(lit ''queries'', JArray [JStr (lit ''A''), JStr [], JStr (lit ''B'')])]))
        [ApiText sample_kml, ApiText (lit ''no KML here'')]
     = ((BatchBody [(lit ''A'', sample_kml)]
          [(lit ''B'', lit ''KML generation failed: Generated KML failed validation'')], 200),
        [])"
proof -
  let ?qs = "[JStr (lit ''A'')] @ JStr [] # [JStr (lit ''B'')]"
  let ?script = "[ApiText sample_kml, ApiText (lit ''no KML here'')]"
  have field: "map_of [(lit ''queries'', JArray ?qs)] (lit ''queries'') = Some (JArray ?qs)"
    by simp
  have blank: "strip (py_str plain_repr (JStr [])) = []"
    by (simp add: strip_Nil)
  have loop: "batch_loop plain_repr scripted ([JStr (lit ''A'')] @ [JStr (lit ''B'')]) [] [] ?script
     = (([(lit ''A'', sample_kml)],
         [(lit ''B'', lit ''KML generation failed: Generated KML failed validation'')]), [])"
    by (simp add: scripted_step strip_letters no_kml_here sample_kml_nonempty
        remove_markdown_sample sample_kml_valid Let_def)
  from blank_query_is_skipped
    [where kvs = "[(lit ''queries'', JArray ?qs)]" and ?qs1.0 = "[JStr (lit ''A'')]"
      and q = "JStr []" and ?qs2.0 = "[JStr (lit ''B'')]" and repr = plain_repr
      and model = scripted and st = ?script, OF field blank]
  have "generate_kml_batch plain_repr scripted
        (Inr (JObject [(lit ''queries'', JArray ?qs)])) ?script
     = ((BatchBody [(lit ''A'', sample_kml)]
          [(lit ''B'', lit ''KML generation failed: Generated KML failed validation'')], 200),
        [])"
    by (simp only: loop prod.case)
  with field blank show ?thesis
    by simp
qed

end
